theory Spec2Isabelle
  imports Main "HOL-Library.AList"
begin

section \<open>JavaScript values as the patches see them\<close>

text \<open>
  The two patch files are ES modules, hence strict-mode code. They only read and write
  properties, test truthiness and use the operators \<open>||\<close>, \<open>&&\<close>, \<open>??\<close> and
  \<open>!== undefined\<close>. A value is a primitive or an object; an object is the list of its own
  properties (a later \<open>obj.k = v\<close> replaces the entry of \<open>k\<close> or appends one). Objects
  are plain extensible data: no getters, setters, proxies or frozen objects, and none of
  the property names used here are inherited from a prototype. Values are compared by
  structure: that two properties hold the very same object is not represented, and the
  code never relies on it. Numbers are kept as integers plus \<open>NaN\<close>, since only their
  truthiness is ever observed.
\<close>

datatype jsval =
    Undefined
  | Null
  | JBool bool
  | JNum int
  | JNaN
  | JStr string
  | JObj "(string \<times> jsval) list"

type_synonym obj = "(string \<times> jsval) list"

datatype error = TypeError

text \<open>Truthiness: \<open>undefined\<close>, \<open>null\<close>, \<open>false\<close>, \<open>0\<close>, \<open>NaN\<close> and \<open>""\<close> are falsy.\<close>

fun truthy :: "jsval \<Rightarrow> bool" where
  "truthy Undefined = False"
| "truthy Null = False"
| "truthy (JBool b) = b"
| "truthy (JNum n) = (n \<noteq> 0)"
| "truthy JNaN = False"
| "truthy (JStr s) = (s \<noteq> [])"
| "truthy (JObj ps) = True"

text \<open>\<open>a || b\<close> and \<open>a ?? b\<close> (the right operand is a literal wherever they occur).\<close>

definition js_or :: "jsval \<Rightarrow> jsval \<Rightarrow> jsval" where
  "js_or a b = (if truthy a then a else b)"

definition nullish :: "jsval \<Rightarrow> jsval \<Rightarrow> jsval" where
  "nullish a b = (if a = Undefined \<or> a = Null then b else a)"

text \<open>Reading an own property of an object: a missing property reads \<open>undefined\<close>.\<close>

definition own :: "obj \<Rightarrow> string \<Rightarrow> jsval" where
  "own ps k = (case map_of ps k of None \<Rightarrow> Undefined | Some v \<Rightarrow> v)"

text \<open>
  \<open>v.k\<close>: a TypeError on \<open>undefined\<close> and \<open>null\<close>; on any other primitive the names
  used here read \<open>undefined\<close>.
\<close>

fun get_prop :: "jsval \<Rightarrow> string \<Rightarrow> error + jsval" where
  "get_prop Undefined k = Inl TypeError"
| "get_prop Null k = Inl TypeError"
| "get_prop (JObj ps) k = Inr (own ps k)"
| "get_prop v k = Inr Undefined"

text \<open>
  \<open>v.k = x\<close> in strict mode: a TypeError unless \<open>v\<close> is an object. The object is
  mutated in place; the model returns the object after the assignment.
\<close>

fun set_prop :: "jsval \<Rightarrow> string \<Rightarrow> jsval \<Rightarrow> error + jsval" where
  "set_prop (JObj ps) k x = Inr (JObj (AList.update k x ps))"
| "set_prop v k x = Inl TypeError"

section \<open>pos\_order\_extension.js: the patch of PosOrder\<close>

text \<open>
  \<open>setup(vals)\<close>, first variant (field \<open>order_company_data\<close>). \<open>this\<close> is the order as
  \<open>super.setup(vals)\<close> left it; the result is the order after the three assignments, or
  the TypeError of reading a property of an \<open>undefined\<close> or \<open>null\<close> \<open>vals\<close>.
\<close>

definition setup_v1 :: "obj \<Rightarrow> jsval \<Rightarrow> error + obj" where
  "setup_v1 this vals =
     (case get_prop vals ''is_fiscal_order'' of Inl e \<Rightarrow> Inl e | Inr f \<Rightarrow>
       (let this1 = AList.update ''is_fiscal_order''
                      (if f \<noteq> Undefined then f else JBool True) this in
        (case get_prop vals ''non_fiscal_qr_data'' of Inl e \<Rightarrow> Inl e | Inr q \<Rightarrow>
          (let this2 = AList.update ''non_fiscal_qr_data'' (js_or q (JBool False)) this1 in
           (case get_prop vals ''order_company_data'' of Inl e \<Rightarrow> Inl e | Inr c \<Rightarrow>
              Inr (AList.update ''order_company_data'' (js_or c (JBool False)) this2))))))"

text \<open>\<open>setup(vals)\<close>, second variant (field \<open>company_data\<close>, nullish coalescing).\<close>

definition setup_v2 :: "obj \<Rightarrow> jsval \<Rightarrow> error + obj" where
  "setup_v2 this vals =
     (case get_prop vals ''company_data'' of Inl e \<Rightarrow> Inl e | Inr c \<Rightarrow>
       (let this1 = AList.update ''company_data'' (js_or c (JBool False)) this in
        (case get_prop vals ''is_fiscal_order'' of Inl e \<Rightarrow> Inl e | Inr f \<Rightarrow>
          (let this2 = AList.update ''is_fiscal_order'' (nullish f (JBool True)) this1 in
           (case get_prop vals ''non_fiscal_qr_data'' of Inl e \<Rightarrow> Inl e | Inr q \<Rightarrow>
              Inr (AList.update ''non_fiscal_qr_data'' (js_or q (JBool False)) this2))))))"

text \<open>
  \<open>export_for_printing()\<close>, first variant. \<open>result\<close> is what
  \<open>super.export_for_printing(...)\<close> returned. \<open>&&\<close> is lazy: \<open>result.headerData\<close> is
  read only when the order's override is truthy. The header object is reached through
  \<open>result\<close>, so the assignment to its \<open>company\<close> shows in \<open>result.headerData\<close>; that is
  the last \<open>set_prop\<close> of the first step (\<open>result\<close> is an object whenever its
  \<open>headerData\<close> is truthy, so this one cannot raise).
\<close>

definition export_for_printing_v1 :: "obj \<Rightarrow> jsval \<Rightarrow> error + jsval" where
  "export_for_printing_v1 this result =
     (case (if truthy (own this ''order_company_data'') then
              (case get_prop result ''headerData'' of Inl e \<Rightarrow> Inl e | Inr h \<Rightarrow>
                 if truthy h then
                   (case set_prop h ''company'' (own this ''order_company_data'') of
                      Inl e \<Rightarrow> Inl e
                    | Inr h' \<Rightarrow> set_prop result ''headerData'' h')
                 else Inr result)
            else Inr result) of
        Inl e \<Rightarrow> Inl e
      | Inr r1 \<Rightarrow>
          (case set_prop r1 ''is_fiscal_order'' (own this ''is_fiscal_order'') of
             Inl e \<Rightarrow> Inl e
           | Inr r2 \<Rightarrow> set_prop r2 ''non_fiscal_qr_data'' (own this ''non_fiscal_qr_data'')))"

text \<open>\<open>export_for_printing()\<close>, second variant: the same body over \<open>company_data\<close>.\<close>

definition export_for_printing_v2 :: "obj \<Rightarrow> jsval \<Rightarrow> error + jsval" where
  "export_for_printing_v2 this result =
     (case (if truthy (own this ''company_data'') then
              (case get_prop result ''headerData'' of Inl e \<Rightarrow> Inl e | Inr h \<Rightarrow>
                 if truthy h then
                   (case set_prop h ''company'' (own this ''company_data'') of
                      Inl e \<Rightarrow> Inl e
                    | Inr h' \<Rightarrow> set_prop result ''headerData'' h')
                 else Inr result)
            else Inr result) of
        Inl e \<Rightarrow> Inl e
      | Inr r1 \<Rightarrow>
          (case set_prop r1 ''is_fiscal_order'' (own this ''is_fiscal_order'') of
             Inl e \<Rightarrow> Inl e
           | Inr r2 \<Rightarrow> set_prop r2 ''non_fiscal_qr_data'' (own this ''non_fiscal_qr_data'')))"

section \<open>pos\_receipt\_patch.js: the patch of PosStore\<close>

text \<open>
  \<open>getReceiptHeaderData(order)\<close>. \<open>data\<close> is what \<open>super.getReceiptHeaderData(...)\<close>
  returned; \<open>order\<close> is the argument, any value. Inside the guard \<open>order\<close> is truthy,
  so reading its properties cannot raise.
\<close>

definition getReceiptHeaderData :: "jsval \<Rightarrow> jsval \<Rightarrow> error + jsval" where
  "getReceiptHeaderData order data =
     (if truthy order then
        (case get_prop order ''is_fiscal_order'' of Inl e \<Rightarrow> Inl e | Inr f \<Rightarrow>
          (case set_prop data ''is_fiscal_order'' (js_or f (JBool False)) of
             Inl e \<Rightarrow> Inl e
           | Inr d1 \<Rightarrow>
              (case get_prop order ''non_fiscal_qr_data'' of Inl e \<Rightarrow> Inl e | Inr q \<Rightarrow>
                 set_prop d1 ''non_fiscal_qr_data'' (js_or q (JBool False)))))
      else Inr data)"

section \<open>Properties of the value model\<close>

lemma own_update: "own (AList.update k v ps) k' = (if k' = k then v else own ps k')"
  by (simp add: own_def update_conv')

lemma own_Nil: "own [] k = Undefined"
  by (simp add: own_def)

lemma own_Cons: "own ((k, v) # ps) k' = (if k' = k then v else own ps k')"
  by (simp add: own_def)

lemma own_None: "map_of ps k = None \<Longrightarrow> own ps k = Undefined"
  by (simp add: own_def)

lemma get_prop_defined:
  "vals \<noteq> Undefined \<Longrightarrow> vals \<noteq> Null \<Longrightarrow> \<exists>x. get_prop vals k = Inr x"
  by (cases vals) simp_all

lemma setup_v1_reads:
  assumes "get_prop vals ''is_fiscal_order'' = Inr f"
    and "get_prop vals ''non_fiscal_qr_data'' = Inr q"
    and "get_prop vals ''order_company_data'' = Inr c"
  shows "setup_v1 this vals =
    Inr (AList.update ''order_company_data'' (js_or c (JBool False))
          (AList.update ''non_fiscal_qr_data'' (js_or q (JBool False))
            (AList.update ''is_fiscal_order'' (if f \<noteq> Undefined then f else JBool True) this)))"
  using assms by (simp add: setup_v1_def)

lemma setup_v2_reads:
  assumes "get_prop vals ''company_data'' = Inr c"
    and "get_prop vals ''is_fiscal_order'' = Inr f"
    and "get_prop vals ''non_fiscal_qr_data'' = Inr q"
  shows "setup_v2 this vals =
    Inr (AList.update ''non_fiscal_qr_data'' (js_or q (JBool False))
          (AList.update ''is_fiscal_order'' (nullish f (JBool True))
            (AList.update ''company_data'' (js_or c (JBool False)) this)))"
  using assms by (simp add: setup_v2_def)

lemma setup_v1_nullish: "vals = Undefined \<or> vals = Null \<Longrightarrow> setup_v1 this vals = Inl TypeError"
  by (auto simp: setup_v1_def)

lemma setup_v2_nullish: "vals = Undefined \<or> vals = Null \<Longrightarrow> setup_v2 this vals = Inl TypeError"
  by (auto simp: setup_v2_def)

text \<open>Closed forms of the export on an object.\<close>

lemma export_v1_skip:
  assumes "\<not> (truthy (own this ''order_company_data'') \<and> truthy (own ps ''headerData''))"
  shows "export_for_printing_v1 this (JObj ps) =
    Inr (JObj (AList.update ''non_fiscal_qr_data'' (own this ''non_fiscal_qr_data'')
                (AList.update ''is_fiscal_order'' (own this ''is_fiscal_order'') ps)))"
  using assms by (auto simp: export_for_printing_v1_def)

lemma export_v1_override:
  assumes "truthy (own this ''order_company_data'')" and "own ps ''headerData'' = JObj hs"
  shows "export_for_printing_v1 this (JObj ps) =
    Inr (JObj (AList.update ''non_fiscal_qr_data'' (own this ''non_fiscal_qr_data'')
                (AList.update ''is_fiscal_order'' (own this ''is_fiscal_order'')
                  (AList.update ''headerData''
                    (JObj (AList.update ''company'' (own this ''order_company_data'') hs)) ps))))"
  using assms by (simp add: export_for_printing_v1_def)

lemma export_v1_raise:
  assumes "truthy (own this ''order_company_data'')" and "truthy (own ps ''headerData'')"
    and "\<forall>hs. own ps ''headerData'' \<noteq> JObj hs"
  shows "export_for_printing_v1 this (JObj ps) = Inl TypeError"
  using assms by (cases "own ps ''headerData''") (simp_all add: export_for_printing_v1_def)

lemma export_v1_non_object:
  assumes "\<forall>ps. result \<noteq> JObj ps"
  shows "export_for_printing_v1 this result = Inl TypeError"
  using assms by (cases result) (simp_all add: export_for_printing_v1_def)

lemma export_v2_skip:
  assumes "\<not> (truthy (own this ''company_data'') \<and> truthy (own ps ''headerData''))"
  shows "export_for_printing_v2 this (JObj ps) =
    Inr (JObj (AList.update ''non_fiscal_qr_data'' (own this ''non_fiscal_qr_data'')
                (AList.update ''is_fiscal_order'' (own this ''is_fiscal_order'') ps)))"
  using assms by (auto simp: export_for_printing_v2_def)

lemma export_v2_override:
  assumes "truthy (own this ''company_data'')" and "own ps ''headerData'' = JObj hs"
  shows "export_for_printing_v2 this (JObj ps) =
    Inr (JObj (AList.update ''non_fiscal_qr_data'' (own this ''non_fiscal_qr_data'')
                (AList.update ''is_fiscal_order'' (own this ''is_fiscal_order'')
                  (AList.update ''headerData''
                    (JObj (AList.update ''company'' (own this ''company_data'') hs)) ps))))"
  using assms by (simp add: export_for_printing_v2_def)

lemma export_v2_raise:
  assumes "truthy (own this ''company_data'')" and "truthy (own ps ''headerData'')"
    and "\<forall>hs. own ps ''headerData'' \<noteq> JObj hs"
  shows "export_for_printing_v2 this (JObj ps) = Inl TypeError"
  using assms by (cases "own ps ''headerData''") (simp_all add: export_for_printing_v2_def)

lemma export_v2_non_object:
  assumes "\<forall>ps. result \<noteq> JObj ps"
  shows "export_for_printing_v2 this result = Inl TypeError"
  using assms by (cases result) (simp_all add: export_for_printing_v2_def)

lemma header_data_truthy:
  assumes "truthy order" and "get_prop order ''is_fiscal_order'' = Inr f"
    and "get_prop order ''non_fiscal_qr_data'' = Inr q"
  shows "getReceiptHeaderData order (JObj ds) =
    Inr (JObj (AList.update ''non_fiscal_qr_data'' (js_or q (JBool False))
                (AList.update ''is_fiscal_order'' (js_or f (JBool False)) ds)))"
  using assms by (simp add: getReceiptHeaderData_def)

lemma header_data_no_order: "\<not> truthy order \<Longrightarrow> getReceiptHeaderData order data = Inr data"
  by (simp add: getReceiptHeaderData_def)

text \<open>What the augmentation leaves alone, and when it returns.\<close>

lemma export_v1_frame:
  assumes "export_for_printing_v1 this (JObj ps) = Inr r"
  shows "\<exists>ps'. r = JObj ps' \<and> fst ` set ps \<subseteq> fst ` set ps' \<and>
      (\<forall>k. k \<notin> {''headerData'', ''is_fiscal_order'', ''non_fiscal_qr_data''} \<longrightarrow>
           map_of ps' k = map_of ps k) \<and>
      (case own ps ''headerData'' of
         JObj hs \<Rightarrow> (\<exists>hs'. own ps' ''headerData'' = JObj hs' \<and> fst ` set hs \<subseteq> fst ` set hs' \<and>
                       (\<forall>k. k \<noteq> ''company'' \<longrightarrow> map_of hs' k = map_of hs k))
       | h \<Rightarrow> map_of ps' ''headerData'' = map_of ps ''headerData'')"
proof (cases "truthy (own this ''order_company_data'') \<and> truthy (own ps ''headerData'')")
  case False
  from export_v1_skip [OF False] assms
  have r: "r = JObj (AList.update ''non_fiscal_qr_data'' (own this ''non_fiscal_qr_data'')
                (AList.update ''is_fiscal_order'' (own this ''is_fiscal_order'') ps))"
    by simp
  show ?thesis
    unfolding r
    by (auto simp: dom_update update_conv' own_update split: jsval.splits)
next
  case True
  then have c: "truthy (own this ''order_company_data'')" and h: "truthy (own ps ''headerData'')"
    by simp_all
  have "\<exists>hs. own ps ''headerData'' = JObj hs"
  proof (rule ccontr)
    assume "\<not> ?thesis"
    then have "export_for_printing_v1 this (JObj ps) = Inl TypeError"
      using c h by (intro export_v1_raise) simp_all
    with assms show False by simp
  qed
  then obtain hs where hs: "own ps ''headerData'' = JObj hs" ..
  from export_v1_override [OF c hs] assms
  have r: "r = JObj (AList.update ''non_fiscal_qr_data'' (own this ''non_fiscal_qr_data'')
                (AList.update ''is_fiscal_order'' (own this ''is_fiscal_order'')
                  (AList.update ''headerData''
                    (JObj (AList.update ''company'' (own this ''order_company_data'') hs)) ps)))"
    by simp
  show ?thesis
    unfolding r
    by (auto simp: hs dom_update update_conv' own_update)
qed

lemma export_v2_frame:
  assumes "export_for_printing_v2 this (JObj ps) = Inr r"
  shows "\<exists>ps'. r = JObj ps' \<and> fst ` set ps \<subseteq> fst ` set ps' \<and>
      (\<forall>k. k \<notin> {''headerData'', ''is_fiscal_order'', ''non_fiscal_qr_data''} \<longrightarrow>
           map_of ps' k = map_of ps k) \<and>
      (case own ps ''headerData'' of
         JObj hs \<Rightarrow> (\<exists>hs'. own ps' ''headerData'' = JObj hs' \<and> fst ` set hs \<subseteq> fst ` set hs' \<and>
                       (\<forall>k. k \<noteq> ''company'' \<longrightarrow> map_of hs' k = map_of hs k))
       | h \<Rightarrow> map_of ps' ''headerData'' = map_of ps ''headerData'')"
proof (cases "truthy (own this ''company_data'') \<and> truthy (own ps ''headerData'')")
  case False
  from export_v2_skip [OF False] assms
  have r: "r = JObj (AList.update ''non_fiscal_qr_data'' (own this ''non_fiscal_qr_data'')
                (AList.update ''is_fiscal_order'' (own this ''is_fiscal_order'') ps))"
    by simp
  show ?thesis
    unfolding r
    by (auto simp: dom_update update_conv' own_update split: jsval.splits)
next
  case True
  then have c: "truthy (own this ''company_data'')" and h: "truthy (own ps ''headerData'')"
    by simp_all
  have "\<exists>hs. own ps ''headerData'' = JObj hs"
  proof (rule ccontr)
    assume "\<not> ?thesis"
    then have "export_for_printing_v2 this (JObj ps) = Inl TypeError"
      using c h by (intro export_v2_raise) simp_all
    with assms show False by simp
  qed
  then obtain hs where hs: "own ps ''headerData'' = JObj hs" ..
  from export_v2_override [OF c hs] assms
  have r: "r = JObj (AList.update ''non_fiscal_qr_data'' (own this ''non_fiscal_qr_data'')
                (AList.update ''is_fiscal_order'' (own this ''is_fiscal_order'')
                  (AList.update ''headerData''
                    (JObj (AList.update ''company'' (own this ''company_data'') hs)) ps)))"
    by simp
  show ?thesis
    unfolding r
    by (auto simp: hs dom_update update_conv' own_update)
qed

lemma header_data_frame:
  "\<exists>ds'. getReceiptHeaderData order (JObj ds) = Inr (JObj ds') \<and> fst ` set ds \<subseteq> fst ` set ds' \<and>
      (\<forall>k. k \<notin> {''is_fiscal_order'', ''non_fiscal_qr_data''} \<longrightarrow> map_of ds' k = map_of ds k)"
proof (cases "truthy order")
  case False
  then show ?thesis by (simp add: header_data_no_order)
next
  case True
  then obtain f q where "get_prop order ''is_fiscal_order'' = Inr f"
    and "get_prop order ''non_fiscal_qr_data'' = Inr q"
    by (cases order) simp_all
  from header_data_truthy [OF True this] show ?thesis
    by (auto simp: dom_update update_conv')
qed

lemma export_v1_returns:
  assumes "\<not> truthy (own ps ''headerData'') \<or> (\<exists>hs. own ps ''headerData'' = JObj hs)"
  shows "\<exists>r. export_for_printing_v1 this (JObj ps) = Inr r"
proof (cases "truthy (own this ''order_company_data'') \<and> truthy (own ps ''headerData'')")
  case False
  from export_v1_skip [OF False] show ?thesis by simp
next
  case True
  with assms obtain hs where "own ps ''headerData'' = JObj hs" by auto
  with True export_v1_override show ?thesis by simp
qed

lemma export_v2_returns:
  assumes "\<not> truthy (own ps ''headerData'') \<or> (\<exists>hs. own ps ''headerData'' = JObj hs)"
  shows "\<exists>r. export_for_printing_v2 this (JObj ps) = Inr r"
proof (cases "truthy (own this ''company_data'') \<and> truthy (own ps ''headerData'')")
  case False
  from export_v2_skip [OF False] show ?thesis by simp
next
  case True
  with assms obtain hs where "own ps ''headerData'' = JObj hs" by auto
  with True export_v2_override show ?thesis by simp
qed

lemma setup_returns:
  assumes "vals \<noteq> Undefined" and "vals \<noteq> Null"
  shows "(\<exists>a. setup_v1 this vals = Inr a) \<and> (\<exists>b. setup_v2 this vals = Inr b)"
  using assms by (cases vals) (simp_all add: setup_v1_def setup_v2_def)

section \<open>The claims\<close>

text \<open>
  Claim C1. Whenever the order's company override (\<open>order_company_data\<close> in the first
  variant, \<open>company_data\<close> in the second) is truthy and the base export carries a
  \<open>headerData\<close> object, \<open>export_for_printing\<close> returns an export whose
  \<open>headerData.company\<close> is exactly the override, whatever company the host had put
  there: a replacement, not a merge.
\<close>

theorem export_company_replaced:
  assumes "own ps ''headerData'' = JObj hs"
  shows "(truthy (own this ''order_company_data'') \<longrightarrow>
           (\<exists>ps' hs'. export_for_printing_v1 this (JObj ps) = Inr (JObj ps') \<and>
              own ps' ''headerData'' = JObj hs' \<and>
              own hs' ''company'' = own this ''order_company_data''))
       \<and> (truthy (own this ''company_data'') \<longrightarrow>
           (\<exists>ps' hs'. export_for_printing_v2 this (JObj ps) = Inr (JObj ps') \<and>
              own ps' ''headerData'' = JObj hs' \<and>
              own hs' ''company'' = own this ''company_data''))"
proof (intro conjI impI)
  assume c: "truthy (own this ''order_company_data'')"
  show "\<exists>ps' hs'. export_for_printing_v1 this (JObj ps) = Inr (JObj ps') \<and>
      own ps' ''headerData'' = JObj hs' \<and> own hs' ''company'' = own this ''order_company_data''"
    by (simp add: export_v1_override [OF c assms] own_update)
next
  assume c: "truthy (own this ''company_data'')"
  show "\<exists>ps' hs'. export_for_printing_v2 this (JObj ps) = Inr (JObj ps') \<and>
      own ps' ''headerData'' = JObj hs' \<and> own hs' ''company'' = own this ''company_data''"
    by (simp add: export_v2_override [OF c assms] own_update)
qed

theorem export_company_replaced_witness:
  "own [(''headerData'', JObj [(''company'', JObj [(''name'', JStr ''Old Co'')])])] ''headerData''
     = JObj [(''company'', JObj [(''name'', JStr ''Old Co'')])]
   \<and> truthy (own [(''order_company_data'', JObj [(''name'', JStr ''New Co'')]),
                  (''company_data'', JObj [(''name'', JStr ''New Co'')])] ''order_company_data'')
   \<and> truthy (own [(''order_company_data'', JObj [(''name'', JStr ''New Co'')]),
                  (''company_data'', JObj [(''name'', JStr ''New Co'')])] ''company_data'')
   \<and> (\<exists>ps' hs'. export_for_printing_v1
          [(''order_company_data'', JObj [(''name'', JStr ''New Co'')]),
           (''company_data'', JObj [(''name'', JStr ''New Co'')])]
          (JObj [(''headerData'', JObj [(''company'', JObj [(''name'', JStr ''Old Co'')])])])
          = Inr (JObj ps') \<and>
        own ps' ''headerData'' = JObj hs' \<and>
        own hs' ''company'' = JObj [(''name'', JStr ''New Co'')])
   \<and> (\<exists>ps' hs'. export_for_printing_v2
          [(''order_company_data'', JObj [(''name'', JStr ''New Co'')]),
           (''company_data'', JObj [(''name'', JStr ''New Co'')])]
          (JObj [(''headerData'', JObj [(''company'', JObj [(''name'', JStr ''Old Co'')])])])
          = Inr (JObj ps') \<and>
        own ps' ''headerData'' = JObj hs' \<and>
        own hs' ''company'' = JObj [(''name'', JStr ''New Co'')])"
  using export_company_replaced
    [of "[(''headerData'', JObj [(''company'', JObj [(''name'', JStr ''Old Co'')])])]"
        "[(''company'', JObj [(''name'', JStr ''Old Co'')])]"
        "[(''order_company_data'', JObj [(''name'', JStr ''New Co'')]),
          (''company_data'', JObj [(''name'', JStr ''New Co'')])]"]
  by (simp add: own_def)

text \<open>
  Claim C2. On the empty raw input \<open>{}\<close>, \<open>setup\<close> leaves the order with
  \<open>is_fiscal_order = true\<close>, \<open>non_fiscal_qr_data = false\<close> and a company override
  equal to \<open>false\<close>. More generally, in both variants: a raw input in which
  \<open>is_fiscal_order\<close> reads \<open>undefined\<close> gives \<open>true\<close>, and one in which
  \<open>non_fiscal_qr_data\<close> or the company override reads \<open>undefined\<close> gives the
  sentinel \<open>false\<close> for that field.
\<close>

theorem setup_defaults:
  "(\<exists>a. setup_v1 this (JObj []) = Inr a \<and> own a ''is_fiscal_order'' = JBool True \<and>
        own a ''non_fiscal_qr_data'' = JBool False \<and> own a ''order_company_data'' = JBool False)
   \<and> (\<exists>b. setup_v2 this (JObj []) = Inr b \<and> own b ''is_fiscal_order'' = JBool True \<and>
        own b ''non_fiscal_qr_data'' = JBool False \<and> own b ''company_data'' = JBool False)
   \<and> (get_prop vals ''is_fiscal_order'' = Inr Undefined \<longrightarrow>
        (\<exists>a. setup_v1 this vals = Inr a \<and> own a ''is_fiscal_order'' = JBool True) \<and>
        (\<exists>b. setup_v2 this vals = Inr b \<and> own b ''is_fiscal_order'' = JBool True))
   \<and> (get_prop vals ''non_fiscal_qr_data'' = Inr Undefined \<longrightarrow>
        (\<exists>a. setup_v1 this vals = Inr a \<and> own a ''non_fiscal_qr_data'' = JBool False) \<and>
        (\<exists>b. setup_v2 this vals = Inr b \<and> own b ''non_fiscal_qr_data'' = JBool False))
   \<and> (get_prop vals ''order_company_data'' = Inr Undefined \<longrightarrow>
        (\<exists>a. setup_v1 this vals = Inr a \<and> own a ''order_company_data'' = JBool False))
   \<and> (get_prop vals ''company_data'' = Inr Undefined \<longrightarrow>
        (\<exists>b. setup_v2 this vals = Inr b \<and> own b ''company_data'' = JBool False))"
proof -
  have empty1: "\<exists>a. setup_v1 this (JObj []) = Inr a \<and> own a ''is_fiscal_order'' = JBool True \<and>
        own a ''non_fiscal_qr_data'' = JBool False \<and> own a ''order_company_data'' = JBool False"
    by (simp add: setup_v1_def own_update js_or_def own_Nil)
  have empty2: "\<exists>b. setup_v2 this (JObj []) = Inr b \<and> own b ''is_fiscal_order'' = JBool True \<and>
        own b ''non_fiscal_qr_data'' = JBool False \<and> own b ''company_data'' = JBool False"
    by (simp add: setup_v2_def own_update js_or_def nullish_def own_Nil)
  have fiscal: "(\<exists>a. setup_v1 this vals = Inr a \<and> own a ''is_fiscal_order'' = JBool True) \<and>
        (\<exists>b. setup_v2 this vals = Inr b \<and> own b ''is_fiscal_order'' = JBool True)"
    if "get_prop vals ''is_fiscal_order'' = Inr Undefined"
    using that by (cases vals) (simp_all add: setup_v1_def setup_v2_def own_update nullish_def)
  have qr: "(\<exists>a. setup_v1 this vals = Inr a \<and> own a ''non_fiscal_qr_data'' = JBool False) \<and>
        (\<exists>b. setup_v2 this vals = Inr b \<and> own b ''non_fiscal_qr_data'' = JBool False)"
    if "get_prop vals ''non_fiscal_qr_data'' = Inr Undefined"
    using that by (cases vals) (simp_all add: setup_v1_def setup_v2_def own_update js_or_def)
  have co1: "\<exists>a. setup_v1 this vals = Inr a \<and> own a ''order_company_data'' = JBool False"
    if "get_prop vals ''order_company_data'' = Inr Undefined"
    using that by (cases vals) (simp_all add: setup_v1_def own_update js_or_def)
  have co2: "\<exists>b. setup_v2 this vals = Inr b \<and> own b ''company_data'' = JBool False"
    if "get_prop vals ''company_data'' = Inr Undefined"
    using that by (cases vals) (simp_all add: setup_v2_def own_update js_or_def)
  from empty1 empty2 fiscal qr co1 co2 show ?thesis by blast
qed

theorem setup_defaults_witness:
  "get_prop (JObj []) ''is_fiscal_order'' = Inr Undefined
   \<and> get_prop (JObj []) ''non_fiscal_qr_data'' = Inr Undefined
   \<and> get_prop (JObj []) ''order_company_data'' = Inr Undefined
   \<and> get_prop (JObj []) ''company_data'' = Inr Undefined
   \<and> setup_v1 [] (JObj []) =
       Inr [(''is_fiscal_order'', JBool True), (''non_fiscal_qr_data'', JBool False),
            (''order_company_data'', JBool False)]
   \<and> setup_v2 [] (JObj []) =
       Inr [(''company_data'', JBool False), (''is_fiscal_order'', JBool True),
            (''non_fiscal_qr_data'', JBool False)]
   \<and> (\<exists>a. setup_v1 [] (JObj []) = Inr a \<and> own a ''is_fiscal_order'' = JBool True)
   \<and> (\<exists>b. setup_v2 [] (JObj []) = Inr b \<and> own b ''is_fiscal_order'' = JBool True)"
  using setup_defaults [of "[]" "JObj []"]
  by (simp add: own_Nil own_Cons setup_v1_def setup_v2_def js_or_def nullish_def)

text \<open>
  Claim C5. A raw input that carries \<open>is_fiscal_order: false\<close> explicitly is normalised
  to \<open>is_fiscal_order = false\<close> by both variants of \<open>setup\<close>: the default
  \<open>true\<close> never replaces the explicit value.
\<close>

theorem setup_keeps_explicit_false:
  assumes "get_prop vals ''is_fiscal_order'' = Inr (JBool False)"
  shows "(\<exists>a. setup_v1 this vals = Inr a \<and> own a ''is_fiscal_order'' = JBool False)
       \<and> (\<exists>b. setup_v2 this vals = Inr b \<and> own b ''is_fiscal_order'' = JBool False)"
  using assms by (cases vals) (simp_all add: setup_v1_def setup_v2_def own_update nullish_def)

theorem setup_keeps_explicit_false_witness:
  "get_prop (JObj [(''is_fiscal_order'', JBool False)]) ''is_fiscal_order'' = Inr (JBool False)
   \<and> setup_v1 [] (JObj [(''is_fiscal_order'', JBool False)]) =
       Inr [(''is_fiscal_order'', JBool False), (''non_fiscal_qr_data'', JBool False),
            (''order_company_data'', JBool False)]
   \<and> setup_v2 [] (JObj [(''is_fiscal_order'', JBool False)]) =
       Inr [(''company_data'', JBool False), (''is_fiscal_order'', JBool False),
            (''non_fiscal_qr_data'', JBool False)]
   \<and> (\<exists>a. setup_v1 [] (JObj [(''is_fiscal_order'', JBool False)]) = Inr a \<and>
          own a ''is_fiscal_order'' = JBool False)
   \<and> (\<exists>b. setup_v2 [] (JObj [(''is_fiscal_order'', JBool False)]) = Inr b \<and>
          own b ''is_fiscal_order'' = JBool False)"
  using setup_keeps_explicit_false [of "JObj [(''is_fiscal_order'', JBool False)]" "[]"]
  by (simp add: own_Nil own_Cons setup_v1_def setup_v2_def js_or_def nullish_def)

text \<open>
  Claim C9. The two variants of \<open>setup\<close> agree on the default: when
  \<open>is_fiscal_order\<close> reads \<open>undefined\<close> in the raw input, the
  \<open>!== undefined\<close> variant and the \<open>??\<close> variant both store \<open>true\<close>. On the raw
  input \<open>{is_fiscal_order: null}\<close> they differ: the first stores \<open>null\<close>, the second
  \<open>true\<close>.
\<close>

theorem setup_variants_agree_on_undefined_differ_on_null:
  "(get_prop vals ''is_fiscal_order'' = Inr Undefined \<longrightarrow>
      (\<exists>a b. setup_v1 this vals = Inr a \<and> setup_v2 this vals = Inr b \<and>
         own a ''is_fiscal_order'' = JBool True \<and> own b ''is_fiscal_order'' = JBool True))
   \<and> (\<exists>a b. setup_v1 this (JObj [(''is_fiscal_order'', Null)]) = Inr a \<and>
         setup_v2 this (JObj [(''is_fiscal_order'', Null)]) = Inr b \<and>
         own a ''is_fiscal_order'' = Null \<and> own b ''is_fiscal_order'' = JBool True \<and>
         own a ''is_fiscal_order'' \<noteq> own b ''is_fiscal_order'')"
proof (intro conjI impI)
  assume "get_prop vals ''is_fiscal_order'' = Inr Undefined"
  then show "\<exists>a b. setup_v1 this vals = Inr a \<and> setup_v2 this vals = Inr b \<and>
         own a ''is_fiscal_order'' = JBool True \<and> own b ''is_fiscal_order'' = JBool True"
    by (cases vals) (simp_all add: setup_v1_def setup_v2_def own_update nullish_def)
next
  show "\<exists>a b. setup_v1 this (JObj [(''is_fiscal_order'', Null)]) = Inr a \<and>
         setup_v2 this (JObj [(''is_fiscal_order'', Null)]) = Inr b \<and>
         own a ''is_fiscal_order'' = Null \<and> own b ''is_fiscal_order'' = JBool True \<and>
         own a ''is_fiscal_order'' \<noteq> own b ''is_fiscal_order''"
    by (simp add: setup_v1_def setup_v2_def own_update nullish_def own_Nil own_Cons)
qed

theorem setup_variants_agree_on_undefined_differ_on_null_witness:
  "get_prop (JObj [(''is_fiscal_order'', Undefined)]) ''is_fiscal_order'' = Inr Undefined
   \<and> (\<exists>a b. setup_v1 [] (JObj [(''is_fiscal_order'', Undefined)]) = Inr a \<and>
         setup_v2 [] (JObj [(''is_fiscal_order'', Undefined)]) = Inr b \<and>
         own a ''is_fiscal_order'' = JBool True \<and> own b ''is_fiscal_order'' = JBool True)
   \<and> setup_v1 [] (JObj [(''is_fiscal_order'', Null)]) =
       Inr [(''is_fiscal_order'', Null), (''non_fiscal_qr_data'', JBool False),
            (''order_company_data'', JBool False)]
   \<and> setup_v2 [] (JObj [(''is_fiscal_order'', Null)]) =
       Inr [(''company_data'', JBool False), (''is_fiscal_order'', JBool True),
            (''non_fiscal_qr_data'', JBool False)]"
  using setup_variants_agree_on_undefined_differ_on_null
    [of "JObj [(''is_fiscal_order'', Undefined)]" "[]"]
  by (simp add: own_Nil own_Cons setup_v1_def setup_v2_def js_or_def nullish_def)

text \<open>
  Claim C3. For every order object and every base header-data object,
  \<open>getReceiptHeaderData\<close> returns the header data with \<open>is_fiscal_order\<close> set to the
  order's value when that is truthy and to \<open>false\<close> otherwise (in particular when the
  order has no such field), and \<open>non_fiscal_qr_data\<close> likewise. The result is a
  function of the order and the base header data alone, so it does not depend on an
  earlier \<open>export_for_printing\<close>, which never assigns to the order. (Called without an
  order, the guard returns the base data as it is: \<open>header_data_no_order\<close>.)
\<close>

theorem header_data_sets_fields:
  "\<exists>ds'. getReceiptHeaderData (JObj os) (JObj ds) = Inr (JObj ds')
     \<and> own ds' ''is_fiscal_order'' =
         (if truthy (own os ''is_fiscal_order'') then own os ''is_fiscal_order'' else JBool False)
     \<and> own ds' ''non_fiscal_qr_data'' =
         (if truthy (own os ''non_fiscal_qr_data'') then own os ''non_fiscal_qr_data''
          else JBool False)
     \<and> (map_of os ''is_fiscal_order'' = None \<longrightarrow> own ds' ''is_fiscal_order'' = JBool False)
     \<and> (map_of os ''non_fiscal_qr_data'' = None \<longrightarrow>
          own ds' ''non_fiscal_qr_data'' = JBool False)"
proof -
  have "getReceiptHeaderData (JObj os) (JObj ds) =
    Inr (JObj (AList.update ''non_fiscal_qr_data''
                 (js_or (own os ''non_fiscal_qr_data'') (JBool False))
                (AList.update ''is_fiscal_order''
                  (js_or (own os ''is_fiscal_order'') (JBool False)) ds)))"
    by (rule header_data_truthy) simp_all
  then show ?thesis
    by (simp add: own_update js_or_def own_None)
qed

theorem header_data_sets_fields_witness:
  "map_of [(''non_fiscal_qr_data'', JStr ''QR123'')] ''is_fiscal_order'' = None
   \<and> getReceiptHeaderData (JObj [(''non_fiscal_qr_data'', JStr ''QR123'')])
        (JObj [(''company'', JObj [(''name'', JStr ''Old Co'')])])
      = Inr (JObj [(''company'', JObj [(''name'', JStr ''Old Co'')]),
                   (''is_fiscal_order'', JBool False),
                   (''non_fiscal_qr_data'', JStr ''QR123'')])
   \<and> map_of [] ''non_fiscal_qr_data'' = (None :: jsval option)
   \<and> getReceiptHeaderData (JObj []) (JObj [])
      = Inr (JObj [(''is_fiscal_order'', JBool False), (''non_fiscal_qr_data'', JBool False)])"
  using header_data_sets_fields
    [of "[(''non_fiscal_qr_data'', JStr ''QR123'')]" "[(''company'', JObj [(''name'', JStr ''Old Co'')])]"]
    header_data_sets_fields [of "[]" "[]"]
  by (simp add: getReceiptHeaderData_def own_Nil own_Cons js_or_def)

text \<open>
  Claim C4. When the order's company override is the sentinel \<open>false\<close>,
  \<open>export_for_printing\<close> returns the base export with \<open>headerData\<close> exactly as the
  host provided it, and with \<open>is_fiscal_order\<close> and \<open>non_fiscal_qr_data\<close> copied from
  the order onto its top level. The instance that follows is Scenario B: the order set up from
  \<open>{is_fiscal_order: false, non_fiscal_qr_data: "QR123"}\<close> and the base export
  \<open>{headerData: {company: {name: "Old Co"}}}\<close>.
\<close>

theorem export_without_override:
  "(own this ''order_company_data'' = JBool False \<longrightarrow>
      (\<exists>ps'. export_for_printing_v1 this (JObj ps) = Inr (JObj ps') \<and>
         map_of ps' ''headerData'' = map_of ps ''headerData'' \<and>
         own ps' ''is_fiscal_order'' = own this ''is_fiscal_order'' \<and>
         own ps' ''non_fiscal_qr_data'' = own this ''non_fiscal_qr_data''))
   \<and> (own this ''company_data'' = JBool False \<longrightarrow>
      (\<exists>ps'. export_for_printing_v2 this (JObj ps) = Inr (JObj ps') \<and>
         map_of ps' ''headerData'' = map_of ps ''headerData'' \<and>
         own ps' ''is_fiscal_order'' = own this ''is_fiscal_order'' \<and>
         own ps' ''non_fiscal_qr_data'' = own this ''non_fiscal_qr_data''))"
proof (intro conjI impI)
  assume "own this ''order_company_data'' = JBool False"
  then have "\<not> (truthy (own this ''order_company_data'') \<and> truthy (own ps ''headerData''))"
    by simp
  from export_v1_skip [OF this]
  show "\<exists>ps'. export_for_printing_v1 this (JObj ps) = Inr (JObj ps') \<and>
         map_of ps' ''headerData'' = map_of ps ''headerData'' \<and>
         own ps' ''is_fiscal_order'' = own this ''is_fiscal_order'' \<and>
         own ps' ''non_fiscal_qr_data'' = own this ''non_fiscal_qr_data''"
    by (simp add: own_update update_conv')
next
  assume "own this ''company_data'' = JBool False"
  then have "\<not> (truthy (own this ''company_data'') \<and> truthy (own ps ''headerData''))"
    by simp
  from export_v2_skip [OF this]
  show "\<exists>ps'. export_for_printing_v2 this (JObj ps) = Inr (JObj ps') \<and>
         map_of ps' ''headerData'' = map_of ps ''headerData'' \<and>
         own ps' ''is_fiscal_order'' = own this ''is_fiscal_order'' \<and>
         own ps' ''non_fiscal_qr_data'' = own this ''non_fiscal_qr_data''"
    by (simp add: own_update update_conv')
qed

theorem export_without_override_witness:
  "setup_v1 [] (JObj [(''is_fiscal_order'', JBool False), (''non_fiscal_qr_data'', JStr ''QR123'')])
     = Inr [(''is_fiscal_order'', JBool False), (''non_fiscal_qr_data'', JStr ''QR123''),
            (''order_company_data'', JBool False)]
   \<and> own [(''is_fiscal_order'', JBool False), (''non_fiscal_qr_data'', JStr ''QR123''),
           (''order_company_data'', JBool False)] ''order_company_data'' = JBool False
   \<and> export_for_printing_v1
        [(''is_fiscal_order'', JBool False), (''non_fiscal_qr_data'', JStr ''QR123''),
         (''order_company_data'', JBool False)]
        (JObj [(''headerData'', JObj [(''company'', JObj [(''name'', JStr ''Old Co'')])])])
      = Inr (JObj [(''headerData'', JObj [(''company'', JObj [(''name'', JStr ''Old Co'')])]),
                   (''is_fiscal_order'', JBool False),
                   (''non_fiscal_qr_data'', JStr ''QR123'')])
   \<and> setup_v2 [] (JObj [(''is_fiscal_order'', JBool False), (''non_fiscal_qr_data'', JStr ''QR123'')])
     = Inr [(''company_data'', JBool False), (''is_fiscal_order'', JBool False),
            (''non_fiscal_qr_data'', JStr ''QR123'')]
   \<and> own [(''company_data'', JBool False), (''is_fiscal_order'', JBool False),
           (''non_fiscal_qr_data'', JStr ''QR123'')] ''company_data'' = JBool False
   \<and> export_for_printing_v2
        [(''company_data'', JBool False), (''is_fiscal_order'', JBool False),
         (''non_fiscal_qr_data'', JStr ''QR123'')]
        (JObj [(''headerData'', JObj [(''company'', JObj [(''name'', JStr ''Old Co'')])])])
      = Inr (JObj [(''headerData'', JObj [(''company'', JObj [(''name'', JStr ''Old Co'')])]),
                   (''is_fiscal_order'', JBool False),
                   (''non_fiscal_qr_data'', JStr ''QR123'')])"
  using export_without_override
    [of "[(''is_fiscal_order'', JBool False), (''non_fiscal_qr_data'', JStr ''QR123''),
          (''order_company_data'', JBool False)]"
        "[(''headerData'', JObj [(''company'', JObj [(''name'', JStr ''Old Co'')])])]"]
    export_without_override
    [of "[(''company_data'', JBool False), (''is_fiscal_order'', JBool False),
          (''non_fiscal_qr_data'', JStr ''QR123'')]"
        "[(''headerData'', JObj [(''company'', JObj [(''name'', JStr ''Old Co'')])])]"]
  by (simp add: setup_v1_def setup_v2_def export_for_printing_v1_def export_for_printing_v2_def
      own_Nil own_Cons js_or_def nullish_def)

text \<open>
  Claim C7. \<open>export_for_printing\<close> is idempotent: running the augmentation again on
  the export it returned, for the same order, returns that export unchanged; when the
  first run raises there is no second one. Both variants.
\<close>

theorem export_idempotent:
  "(case export_for_printing_v1 this result of
      Inl e \<Rightarrow> Inl e
    | Inr r \<Rightarrow> export_for_printing_v1 this r) = export_for_printing_v1 this result
   \<and> (case export_for_printing_v2 this result of
      Inl e \<Rightarrow> Inl e
    | Inr r \<Rightarrow> export_for_printing_v2 this r) = export_for_printing_v2 this result"
proof -
  have v1: "(case export_for_printing_v1 this result of
      Inl e \<Rightarrow> Inl e
    | Inr r \<Rightarrow> export_for_printing_v1 this r) = export_for_printing_v1 this result"
  proof (cases result)
    case (JObj ps)
    show ?thesis
    proof (cases "truthy (own this ''order_company_data'') \<and> truthy (own ps ''headerData'')")
      case False
      then have "\<not> (truthy (own this ''order_company_data'') \<and>
          truthy (own (AList.update ''non_fiscal_qr_data'' (own this ''non_fiscal_qr_data'')
                (AList.update ''is_fiscal_order'' (own this ''is_fiscal_order'') ps)) ''headerData''))"
        by (simp add: own_update)
      from export_v1_skip [OF False] export_v1_skip [OF this] show ?thesis
        unfolding JObj by (simp add: update_triv update_conv')
    next
      case True
      show ?thesis
      proof (cases "\<exists>hs. own ps ''headerData'' = JObj hs")
        case False
        with True have "export_for_printing_v1 this (JObj ps) = Inl TypeError"
          by (intro export_v1_raise) simp_all
        then show ?thesis unfolding JObj by simp
      next
        case True
        then obtain hs where hs: "own ps ''headerData'' = JObj hs" ..
        from \<open>truthy (own this ''order_company_data'') \<and> truthy (own ps ''headerData'')\<close>
        have c: "truthy (own this ''order_company_data'')" ..
        let ?h = "JObj (AList.update ''company'' (own this ''order_company_data'') hs)"
        let ?ps' = "AList.update ''non_fiscal_qr_data'' (own this ''non_fiscal_qr_data'')
                (AList.update ''is_fiscal_order'' (own this ''is_fiscal_order'')
                  (AList.update ''headerData'' ?h ps))"
        have first: "export_for_printing_v1 this (JObj ps) = Inr (JObj ?ps')"
          by (rule export_v1_override [OF c hs])
        have "own ?ps' ''headerData'' = ?h"
          by (simp add: own_update)
        from export_v1_override [OF c this]
        have "export_for_printing_v1 this (JObj ?ps') = Inr (JObj ?ps')"
          by (simp add: update_triv update_conv')
        with first show ?thesis unfolding JObj by simp
      qed
    qed
  qed (simp_all add: export_v1_non_object)
  have v2: "(case export_for_printing_v2 this result of
      Inl e \<Rightarrow> Inl e
    | Inr r \<Rightarrow> export_for_printing_v2 this r) = export_for_printing_v2 this result"
  proof (cases result)
    case (JObj ps)
    show ?thesis
    proof (cases "truthy (own this ''company_data'') \<and> truthy (own ps ''headerData'')")
      case False
      then have "\<not> (truthy (own this ''company_data'') \<and>
          truthy (own (AList.update ''non_fiscal_qr_data'' (own this ''non_fiscal_qr_data'')
                (AList.update ''is_fiscal_order'' (own this ''is_fiscal_order'') ps)) ''headerData''))"
        by (simp add: own_update)
      from export_v2_skip [OF False] export_v2_skip [OF this] show ?thesis
        unfolding JObj by (simp add: update_triv update_conv')
    next
      case True
      show ?thesis
      proof (cases "\<exists>hs. own ps ''headerData'' = JObj hs")
        case False
        with True have "export_for_printing_v2 this (JObj ps) = Inl TypeError"
          by (intro export_v2_raise) simp_all
        then show ?thesis unfolding JObj by simp
      next
        case True
        then obtain hs where hs: "own ps ''headerData'' = JObj hs" ..
        from \<open>truthy (own this ''company_data'') \<and> truthy (own ps ''headerData'')\<close>
        have c: "truthy (own this ''company_data'')" ..
        let ?h = "JObj (AList.update ''company'' (own this ''company_data'') hs)"
        let ?ps' = "AList.update ''non_fiscal_qr_data'' (own this ''non_fiscal_qr_data'')
                (AList.update ''is_fiscal_order'' (own this ''is_fiscal_order'')
                  (AList.update ''headerData'' ?h ps))"
        have first: "export_for_printing_v2 this (JObj ps) = Inr (JObj ?ps')"
          by (rule export_v2_override [OF c hs])
        have "own ?ps' ''headerData'' = ?h"
          by (simp add: own_update)
        from export_v2_override [OF c this]
        have "export_for_printing_v2 this (JObj ?ps') = Inr (JObj ?ps')"
          by (simp add: update_triv update_conv')
        with first show ?thesis unfolding JObj by simp
      qed
    qed
  qed (simp_all add: export_v2_non_object)
  from v1 v2 show ?thesis ..
qed

theorem export_idempotent_witness:
  "export_for_printing_v1 [(''order_company_data'', JObj [(''name'', JStr ''New Co'')])]
     (JObj [(''headerData'', JObj [(''company'', JObj [(''name'', JStr ''Old Co'')])])])
   = Inr (JObj [(''headerData'', JObj [(''company'', JObj [(''name'', JStr ''New Co'')])]),
                (''is_fiscal_order'', Undefined), (''non_fiscal_qr_data'', Undefined)])
   \<and> export_for_printing_v1 [(''order_company_data'', JObj [(''name'', JStr ''New Co'')])]
     (JObj [(''headerData'', JObj [(''company'', JObj [(''name'', JStr ''New Co'')])]),
            (''is_fiscal_order'', Undefined), (''non_fiscal_qr_data'', Undefined)])
   = Inr (JObj [(''headerData'', JObj [(''company'', JObj [(''name'', JStr ''New Co'')])]),
                (''is_fiscal_order'', Undefined), (''non_fiscal_qr_data'', Undefined)])"
  using export_idempotent
    [of "[(''order_company_data'', JObj [(''name'', JStr ''New Co'')])]"
        "JObj [(''headerData'', JObj [(''company'', JObj [(''name'', JStr ''Old Co'')])])]"]
  by (simp add: export_for_printing_v1_def own_Nil own_Cons)

text \<open>
  Claim C6. Whatever base object either extension point is handed, the object it returns
  is a superset of it. For \<open>export_for_printing\<close>: every property of the base export
  is still there, every property other than \<open>headerData\<close>, \<open>is_fiscal_order\<close> and
  \<open>non_fiscal_qr_data\<close> has the value it had, and a \<open>headerData\<close> object keeps all its
  properties with their values, \<open>company\<close> apart (any other \<open>headerData\<close> is left as
  it was); the call returns whenever \<open>headerData\<close> is falsy or an object. For
  \<open>getReceiptHeaderData\<close>: the call returns, every property of the base data is still
  there, and every property other than \<open>is_fiscal_order\<close> and \<open>non_fiscal_qr_data\<close>
  has the value it had.
\<close>

theorem augmentation_keeps_host_fields:
  "(export_for_printing_v1 this (JObj ps) = Inr r1 \<longrightarrow>
      (\<exists>ps'. r1 = JObj ps' \<and> fst ` set ps \<subseteq> fst ` set ps' \<and>
        (\<forall>k. k \<notin> {''headerData'', ''is_fiscal_order'', ''non_fiscal_qr_data''} \<longrightarrow>
             map_of ps' k = map_of ps k) \<and>
        (case own ps ''headerData'' of
           JObj hs \<Rightarrow> (\<exists>hs'. own ps' ''headerData'' = JObj hs' \<and>
                         fst ` set hs \<subseteq> fst ` set hs' \<and>
                         (\<forall>k. k \<noteq> ''company'' \<longrightarrow> map_of hs' k = map_of hs k))
         | h \<Rightarrow> map_of ps' ''headerData'' = map_of ps ''headerData'')))
   \<and> (export_for_printing_v2 this (JObj ps) = Inr r2 \<longrightarrow>
      (\<exists>ps'. r2 = JObj ps' \<and> fst ` set ps \<subseteq> fst ` set ps' \<and>
        (\<forall>k. k \<notin> {''headerData'', ''is_fiscal_order'', ''non_fiscal_qr_data''} \<longrightarrow>
             map_of ps' k = map_of ps k) \<and>
        (case own ps ''headerData'' of
           JObj hs \<Rightarrow> (\<exists>hs'. own ps' ''headerData'' = JObj hs' \<and>
                         fst ` set hs \<subseteq> fst ` set hs' \<and>
                         (\<forall>k. k \<noteq> ''company'' \<longrightarrow> map_of hs' k = map_of hs k))
         | h \<Rightarrow> map_of ps' ''headerData'' = map_of ps ''headerData'')))
   \<and> (\<not> truthy (own ps ''headerData'') \<or> (\<exists>hs. own ps ''headerData'' = JObj hs) \<longrightarrow>
        (\<exists>r. export_for_printing_v1 this (JObj ps) = Inr r) \<and>
        (\<exists>r. export_for_printing_v2 this (JObj ps) = Inr r))
   \<and> (\<exists>ds'. getReceiptHeaderData order (JObj ds) = Inr (JObj ds') \<and>
        fst ` set ds \<subseteq> fst ` set ds' \<and>
        (\<forall>k. k \<notin> {''is_fiscal_order'', ''non_fiscal_qr_data''} \<longrightarrow>
             map_of ds' k = map_of ds k))"
  using export_v1_frame [of this ps r1] export_v2_frame [of this ps r2]
    export_v1_returns [of ps this] export_v2_returns [of ps this]
    header_data_frame [of order ds]
  by blast

theorem augmentation_keeps_host_fields_witness:
  "export_for_printing_v1 [(''order_company_data'', JObj [(''name'', JStr ''New Co'')])]
     (JObj [(''headerData'', JObj [(''company'', JObj [(''name'', JStr ''Old Co'')]),
                                   (''header'', JStr ''Welcome'')]),
            (''amount_total'', JNum 12)])
   = Inr (JObj [(''headerData'', JObj [(''company'', JObj [(''name'', JStr ''New Co'')]),
                                       (''header'', JStr ''Welcome'')]),
                (''amount_total'', JNum 12),
                (''is_fiscal_order'', Undefined), (''non_fiscal_qr_data'', Undefined)])
   \<and> export_for_printing_v2 [(''order_company_data'', JObj [(''name'', JStr ''New Co'')])]
     (JObj [(''headerData'', JObj [(''company'', JObj [(''name'', JStr ''Old Co'')]),
                                   (''header'', JStr ''Welcome'')]),
            (''amount_total'', JNum 12)])
   = Inr (JObj [(''headerData'', JObj [(''company'', JObj [(''name'', JStr ''Old Co'')]),
                                       (''header'', JStr ''Welcome'')]),
                (''amount_total'', JNum 12),
                (''is_fiscal_order'', Undefined), (''non_fiscal_qr_data'', Undefined)])
   \<and> own [(''headerData'', JObj [(''company'', JObj [(''name'', JStr ''Old Co'')]),
                                  (''header'', JStr ''Welcome'')]),
           (''amount_total'', JNum 12)] ''headerData''
     = JObj [(''company'', JObj [(''name'', JStr ''Old Co'')]), (''header'', JStr ''Welcome'')]
   \<and> (\<exists>ps'. JObj [(''headerData'', JObj [(''company'', JObj [(''name'', JStr ''New Co'')]),
                                       (''header'', JStr ''Welcome'')]),
                (''amount_total'', JNum 12),
                (''is_fiscal_order'', Undefined), (''non_fiscal_qr_data'', Undefined)] = JObj ps'
         \<and> fst ` set [(''headerData'', JObj [(''company'', JObj [(''name'', JStr ''Old Co'')]),
                                   (''header'', JStr ''Welcome'')]),
            (''amount_total'', JNum 12 :: jsval)] \<subseteq> fst ` set ps'
         \<and> map_of ps' ''amount_total'' = Some (JNum 12))"
  using augmentation_keeps_host_fields
    [of "[(''order_company_data'', JObj [(''name'', JStr ''New Co'')])]"
        "[(''headerData'', JObj [(''company'', JObj [(''name'', JStr ''Old Co'')]),
                                   (''header'', JStr ''Welcome'')]),
            (''amount_total'', JNum 12)]"
        "JObj [(''headerData'', JObj [(''company'', JObj [(''name'', JStr ''New Co'')]),
                                       (''header'', JStr ''Welcome'')]),
                (''amount_total'', JNum 12),
                (''is_fiscal_order'', Undefined), (''non_fiscal_qr_data'', Undefined)]"
        "JObj [(''headerData'', JObj [(''company'', JObj [(''name'', JStr ''Old Co'')]),
                                       (''header'', JStr ''Welcome'')]),
                (''amount_total'', JNum 12),
                (''is_fiscal_order'', Undefined), (''non_fiscal_qr_data'', Undefined)]"]
  by (simp add: export_for_printing_v1_def export_for_printing_v2_def own_Nil own_Cons)

text \<open>
  Claim C8, amended. For every order with a truthy company override and every base export
  object whose \<open>headerData\<close> is missing (or falsy), \<open>export_for_printing\<close> skips the
  override and returns the base export with the two custom fields set and nothing else
  changed. On well-formed inputs no operation raises: \<open>setup\<close> returns for every raw
  input other than \<open>undefined\<close> and \<open>null\<close>, \<open>export_for_printing\<close> for every base
  export object whose \<open>headerData\<close> is falsy or an object, \<open>getReceiptHeaderData\<close>
  for every base header-data object.
\<close>

theorem export_skips_missing_header_and_wellformed_inputs_return:
  "(truthy (own this ''order_company_data'') \<and> \<not> truthy (own ps ''headerData'') \<longrightarrow>
      export_for_printing_v1 this (JObj ps) =
        Inr (JObj (AList.update ''non_fiscal_qr_data'' (own this ''non_fiscal_qr_data'')
                    (AList.update ''is_fiscal_order'' (own this ''is_fiscal_order'') ps))))
   \<and> (truthy (own this ''company_data'') \<and> \<not> truthy (own ps ''headerData'') \<longrightarrow>
      export_for_printing_v2 this (JObj ps) =
        Inr (JObj (AList.update ''non_fiscal_qr_data'' (own this ''non_fiscal_qr_data'')
                    (AList.update ''is_fiscal_order'' (own this ''is_fiscal_order'') ps))))
   \<and> (vals \<noteq> Undefined \<and> vals \<noteq> Null \<longrightarrow>
        (\<exists>a. setup_v1 this vals = Inr a) \<and> (\<exists>b. setup_v2 this vals = Inr b))
   \<and> (\<not> truthy (own ps ''headerData'') \<or> (\<exists>hs. own ps ''headerData'' = JObj hs) \<longrightarrow>
        (\<exists>r. export_for_printing_v1 this (JObj ps) = Inr r) \<and>
        (\<exists>r. export_for_printing_v2 this (JObj ps) = Inr r))
   \<and> (\<exists>d. getReceiptHeaderData order (JObj ds) = Inr d)"
proof -
  have "\<exists>d. getReceiptHeaderData order (JObj ds) = Inr d"
    using header_data_frame [of order ds] by blast
  then show ?thesis
    using export_v1_skip [of this ps] export_v2_skip [of this ps] setup_returns [of vals this]
      export_v1_returns [of ps this] export_v2_returns [of ps this]
    by blast
qed

theorem export_skips_missing_header_and_wellformed_inputs_return_witness:
  "truthy (own [(''order_company_data'', JObj [(''name'', JStr ''New Co'')]),
                (''company_data'', JObj [(''name'', JStr ''New Co'')]),
                (''is_fiscal_order'', JBool True)] ''order_company_data'')
   \<and> truthy (own [(''order_company_data'', JObj [(''name'', JStr ''New Co'')]),
                (''company_data'', JObj [(''name'', JStr ''New Co'')]),
                (''is_fiscal_order'', JBool True)] ''company_data'')
   \<and> own [(''amount_total'', JNum 12)] ''headerData'' = Undefined
   \<and> export_for_printing_v1
        [(''order_company_data'', JObj [(''name'', JStr ''New Co'')]),
         (''company_data'', JObj [(''name'', JStr ''New Co'')]),
         (''is_fiscal_order'', JBool True)]
        (JObj [(''amount_total'', JNum 12)])
      = Inr (JObj [(''amount_total'', JNum 12), (''is_fiscal_order'', JBool True),
                   (''non_fiscal_qr_data'', Undefined)])
   \<and> export_for_printing_v2
        [(''order_company_data'', JObj [(''name'', JStr ''New Co'')]),
         (''company_data'', JObj [(''name'', JStr ''New Co'')]),
         (''is_fiscal_order'', JBool True)]
        (JObj [(''amount_total'', JNum 12)])
      = Inr (JObj [(''amount_total'', JNum 12), (''is_fiscal_order'', JBool True),
                   (''non_fiscal_qr_data'', Undefined)])
   \<and> JObj [] \<noteq> Undefined \<and> JObj [] \<noteq> Null
   \<and> (\<exists>a. setup_v1 [(''order_company_data'', JObj [(''name'', JStr ''New Co'')]),
                (''company_data'', JObj [(''name'', JStr ''New Co'')]),
                (''is_fiscal_order'', JBool True)] (JObj []) = Inr a)
   \<and> (\<exists>b. setup_v2 [(''order_company_data'', JObj [(''name'', JStr ''New Co'')]),
                (''company_data'', JObj [(''name'', JStr ''New Co'')]),
                (''is_fiscal_order'', JBool True)] (JObj []) = Inr b)"
  using export_skips_missing_header_and_wellformed_inputs_return
    [of "[(''order_company_data'', JObj [(''name'', JStr ''New Co'')]),
          (''company_data'', JObj [(''name'', JStr ''New Co'')]),
          (''is_fiscal_order'', JBool True)]"
        "[(''amount_total'', JNum 12)]" "JObj []"]
  by (simp add: own_Nil own_Cons)

text \<open>
  The claim as stated, that no operation can fail for any input, is false: the guard of
  the override tests the truthiness of \<open>result.headerData\<close>, not that it is an object,
  and in strict mode the assignment \<open>result.headerData.company = ...\<close> on a string
  raises a TypeError.
\<close>

theorem export_raises_on_primitive_header_data:
  "export_for_printing_v1 [(''order_company_data'', JObj [(''name'', JStr ''New Co'')])]
     (JObj [(''headerData'', JStr ''Old Co'')]) = Inl TypeError"
  by (simp add: export_for_printing_v1_def own_Nil own_Cons)

text \<open>
  Claim C10. After \<open>setup\<close> (which returns for every raw input other than
  \<open>undefined\<close> and \<open>null\<close>), \<open>non_fiscal_qr_data\<close> and the company override each hold
  the raw value when that is truthy and \<open>false\<close> otherwise; so never \<open>undefined\<close>,
  \<open>null\<close> or the empty string. Likewise, for an order that is passed (truthy),
  \<open>getReceiptHeaderData\<close> writes \<open>is_fiscal_order\<close> and \<open>non_fiscal_qr_data\<close> as the
  order's value when truthy and \<open>false\<close> otherwise.
\<close>

theorem sentinel_invariant:
  "(vals \<noteq> Undefined \<and> vals \<noteq> Null \<longrightarrow>
      (\<exists>a q c. get_prop vals ''non_fiscal_qr_data'' = Inr q \<and>
          get_prop vals ''order_company_data'' = Inr c \<and> setup_v1 this vals = Inr a \<and>
          own a ''non_fiscal_qr_data'' = (if truthy q then q else JBool False) \<and>
          own a ''order_company_data'' = (if truthy c then c else JBool False) \<and>
          own a ''non_fiscal_qr_data'' \<notin> {Undefined, Null, JStr ''''} \<and>
          own a ''order_company_data'' \<notin> {Undefined, Null, JStr ''''}) \<and>
      (\<exists>b q c. get_prop vals ''non_fiscal_qr_data'' = Inr q \<and>
          get_prop vals ''company_data'' = Inr c \<and> setup_v2 this vals = Inr b \<and>
          own b ''non_fiscal_qr_data'' = (if truthy q then q else JBool False) \<and>
          own b ''company_data'' = (if truthy c then c else JBool False) \<and>
          own b ''non_fiscal_qr_data'' \<notin> {Undefined, Null, JStr ''''} \<and>
          own b ''company_data'' \<notin> {Undefined, Null, JStr ''''}))
   \<and> (truthy order \<longrightarrow>
      (\<exists>f q ds'. get_prop order ''is_fiscal_order'' = Inr f \<and>
          get_prop order ''non_fiscal_qr_data'' = Inr q \<and>
          getReceiptHeaderData order (JObj ds) = Inr (JObj ds') \<and>
          own ds' ''is_fiscal_order'' = (if truthy f then f else JBool False) \<and>
          own ds' ''non_fiscal_qr_data'' = (if truthy q then q else JBool False) \<and>
          own ds' ''is_fiscal_order'' \<notin> {Undefined, Null, JStr ''''} \<and>
          own ds' ''non_fiscal_qr_data'' \<notin> {Undefined, Null, JStr ''''}))"
proof -
  have sentinel: "(if truthy v then v else JBool False) \<notin> {Undefined, Null, JStr ''''}" for v
    by (cases v) simp_all
  have s1: "\<exists>a q c. get_prop vals ''non_fiscal_qr_data'' = Inr q \<and>
          get_prop vals ''order_company_data'' = Inr c \<and> setup_v1 this vals = Inr a \<and>
          own a ''non_fiscal_qr_data'' = (if truthy q then q else JBool False) \<and>
          own a ''order_company_data'' = (if truthy c then c else JBool False) \<and>
          own a ''non_fiscal_qr_data'' \<notin> {Undefined, Null, JStr ''''} \<and>
          own a ''order_company_data'' \<notin> {Undefined, Null, JStr ''''}"
    if "vals \<noteq> Undefined" "vals \<noteq> Null"
  proof -
    from that obtain f q c where rd: "get_prop vals ''is_fiscal_order'' = Inr f"
      "get_prop vals ''non_fiscal_qr_data'' = Inr q" "get_prop vals ''order_company_data'' = Inr c"
      using get_prop_defined by metis
    show ?thesis
      using sentinel [of q] sentinel [of c]
      by (simp add: rd setup_v1_reads [OF rd] own_update js_or_def)
  qed
  have s2: "\<exists>b q c. get_prop vals ''non_fiscal_qr_data'' = Inr q \<and>
          get_prop vals ''company_data'' = Inr c \<and> setup_v2 this vals = Inr b \<and>
          own b ''non_fiscal_qr_data'' = (if truthy q then q else JBool False) \<and>
          own b ''company_data'' = (if truthy c then c else JBool False) \<and>
          own b ''non_fiscal_qr_data'' \<notin> {Undefined, Null, JStr ''''} \<and>
          own b ''company_data'' \<notin> {Undefined, Null, JStr ''''}"
    if "vals \<noteq> Undefined" "vals \<noteq> Null"
  proof -
    from that obtain c f q where rd: "get_prop vals ''company_data'' = Inr c"
      "get_prop vals ''is_fiscal_order'' = Inr f" "get_prop vals ''non_fiscal_qr_data'' = Inr q"
      using get_prop_defined by metis
    show ?thesis
      using sentinel [of q] sentinel [of c]
      by (simp add: rd setup_v2_reads [OF rd] own_update js_or_def)
  qed
  have h: "\<exists>f q ds'. get_prop order ''is_fiscal_order'' = Inr f \<and>
          get_prop order ''non_fiscal_qr_data'' = Inr q \<and>
          getReceiptHeaderData order (JObj ds) = Inr (JObj ds') \<and>
          own ds' ''is_fiscal_order'' = (if truthy f then f else JBool False) \<and>
          own ds' ''non_fiscal_qr_data'' = (if truthy q then q else JBool False) \<and>
          own ds' ''is_fiscal_order'' \<notin> {Undefined, Null, JStr ''''} \<and>
          own ds' ''non_fiscal_qr_data'' \<notin> {Undefined, Null, JStr ''''}"
    if t: "truthy order"
  proof -
    from t obtain f q where rd: "get_prop order ''is_fiscal_order'' = Inr f"
      "get_prop order ''non_fiscal_qr_data'' = Inr q"
      by (cases order) simp_all
    show ?thesis
      using sentinel [of q] sentinel [of f]
      by (simp add: rd header_data_truthy [OF t rd] own_update js_or_def)
  qed
  from s1 s2 h show ?thesis by blast
qed

theorem sentinel_invariant_witness:
  "JObj [(''non_fiscal_qr_data'', JStr ''''), (''company_data'', Null)] \<noteq> Undefined
   \<and> JObj [(''non_fiscal_qr_data'', JStr ''''), (''company_data'', Null)] \<noteq> Null
   \<and> setup_v1 [] (JObj [(''non_fiscal_qr_data'', JStr ''''), (''company_data'', Null)])
      = Inr [(''is_fiscal_order'', JBool True), (''non_fiscal_qr_data'', JBool False),
             (''order_company_data'', JBool False)]
   \<and> setup_v2 [] (JObj [(''non_fiscal_qr_data'', JStr ''''), (''company_data'', Null)])
      = Inr [(''company_data'', JBool False), (''is_fiscal_order'', JBool True),
             (''non_fiscal_qr_data'', JBool False)]
   \<and> truthy (JObj [(''is_fiscal_order'', JNum 0), (''non_fiscal_qr_data'', JStr ''QR123'')])
   \<and> getReceiptHeaderData
        (JObj [(''is_fiscal_order'', JNum 0), (''non_fiscal_qr_data'', JStr ''QR123'')]) (JObj [])
      = Inr (JObj [(''is_fiscal_order'', JBool False), (''non_fiscal_qr_data'', JStr ''QR123'')])"
  using sentinel_invariant
    [of "JObj [(''non_fiscal_qr_data'', JStr ''''), (''company_data'', Null)]" "[]"
        "JObj [(''is_fiscal_order'', JNum 0), (''non_fiscal_qr_data'', JStr ''QR123'')]" "[]"]
  by (simp add: setup_v1_def setup_v2_def getReceiptHeaderData_def own_Nil own_Cons js_or_def
      nullish_def)

end
